theory Spec2Isabelle
  imports Complex_Main
begin

section \<open>Strings\<close>

text \<open>
  A Python \<^verbatim>\<open>str\<close> is a sequence of Unicode code points, so a string is a list of
  code points here. \<open>str\<close> turns an ASCII literal into such a list; the pound sign
  of the price text is the code point 163 (U+00A3).
\<close>

type_synonym pystr = "nat list"

definition str :: "string \<Rightarrow> pystr" where
  "str s = map of_char s"

text \<open>
  \<^verbatim>\<open>s.lower()\<close>. The letters A to Z move to a to z. Every other code point is kept as
  it is. The program compares a lowered string only with the ASCII words
  \<^verbatim>\<open>star-rating\<close> and \<^verbatim>\<open>one\<close> to \<^verbatim>\<open>five\<close>, and a string with a code point beyond ASCII
  does not lower to one of them in Python either (the one such code point whose
  lower case is an ASCII letter alone is the Kelvin sign, for k), so each comparison
  has the result it has in Python.
\<close>

definition lower_cp :: "nat \<Rightarrow> nat" where
  "lower_cp c = (if 65 \<le> c \<and> c \<le> 90 then c + 32 else c)"

definition lower :: "pystr \<Rightarrow> pystr" where
  "lower s = map lower_cp s"

text \<open>
  \<^verbatim>\<open>s.strip()\<close> removes leading and trailing white space, which for a \<^verbatim>\<open>str\<close> is
  U+0009 to U+000D, U+001C to U+0020, U+0085, U+00A0, U+1680, U+2000 to U+200A, U+2028,
  U+2029, U+202F, U+205F and U+3000.
\<close>

definition isspace :: "nat \<Rightarrow> bool" where
  "isspace c \<longleftrightarrow>
     (9 \<le> c \<and> c \<le> 13) \<or> (28 \<le> c \<and> c \<le> 32) \<or> c = 133 \<or> c = 160 \<or> c = 5760 \<or>
     (8192 \<le> c \<and> c \<le> 8202) \<or> c = 8232 \<or> c = 8233 \<or> c = 8239 \<or> c = 8287 \<or> c = 12288"

definition strip :: "pystr \<Rightarrow> pystr" where
  "strip s = rev (dropWhile isspace (rev (dropWhile isspace s)))"

text \<open>
  \<^verbatim>\<open>s.replace(old, new)\<close> for a pattern \<open>old\<close> of one code point, the only use the
  program makes of it: every occurrence is replaced.
\<close>

definition replace :: "nat \<Rightarrow> pystr \<Rightarrow> pystr \<Rightarrow> pystr" where
  "replace old new s = concat (map (\<lambda>c. if c = old then new else [c]) s)"

section \<open>The parsed document\<close>

text \<open>
  The tree that BeautifulSoup builds with \<^verbatim>\<open>html.parser\<close>. A tag has a name, attributes
  and contents; the contents are tags and strings in document order. Of the
  attributes the program reads three: \<^verbatim>\<open>class\<close>, which this parser always stores as
  the list of its white-space separated tokens, and \<^verbatim>\<open>title\<close> and \<^verbatim>\<open>href\<close>, which it
  stores as strings. \<open>None\<close> is an attribute the tag does not have. Strings that
  \<^verbatim>\<open>.text\<close> leaves out (comments and the like) are not part of the tree, since no call
  of the program sees them.
\<close>

record attrs =
  attr_class :: "pystr list option"
  attr_title :: "pystr option"
  attr_href :: "pystr option"

datatype tag = Tag (name: pystr) (attrs: attrs) (contents: "node list")
  and node = TagNode tag | StringNode pystr

text \<open>The tags below a tag, in document order (\<^verbatim>\<open>tag.descendants\<close>, strings left out).\<close>

fun descendants :: "tag \<Rightarrow> tag list"
  and descendants_nodes :: "node list \<Rightarrow> tag list" where
  "descendants (Tag n a cs) = descendants_nodes cs"
| "descendants_nodes [] = []"
| "descendants_nodes (TagNode t # ns) = t # descendants t @ descendants_nodes ns"
| "descendants_nodes (StringNode s # ns) = descendants_nodes ns"

text \<open>\<^verbatim>\<open>tag.text\<close>: the strings below the tag, concatenated in document order.\<close>

fun get_text :: "tag \<Rightarrow> pystr"
  and get_text_nodes :: "node list \<Rightarrow> pystr" where
  "get_text (Tag n a cs) = get_text_nodes cs"
| "get_text_nodes [] = []"
| "get_text_nodes (TagNode t # ns) = get_text t @ get_text_nodes ns"
| "get_text_nodes (StringNode s # ns) = s @ get_text_nodes ns"

text \<open>
  \<^verbatim>\<open>tag.find_all(nm, class_=c)\<close> and \<^verbatim>\<open>tag.find(nm, class_=c)\<close>: the descendants named
  \<open>nm\<close> that have \<open>c\<close> among their class tokens, in document order, and the first of
  them (\<^verbatim>\<open>None\<close> when there is none). Without \<^verbatim>\<open>class_\<close> the name alone decides.
  (The library also accepts a tag whose whole class value, the tokens joined by
  spaces, is \<open>c\<close>; for a \<open>c\<close> without a space, as here, that is the tag with the
  one token \<open>c\<close>.) The search does not look at the tag it starts from.
\<close>

definition matches :: "pystr \<Rightarrow> pystr option \<Rightarrow> tag \<Rightarrow> bool" where
  "matches nm cls t \<longleftrightarrow>
     name t = nm \<and>
     (case cls of
        None \<Rightarrow> True
      | Some c \<Rightarrow> (case attr_class (attrs t) of None \<Rightarrow> False | Some cs \<Rightarrow> c \<in> set cs))"

definition find_all :: "pystr \<Rightarrow> pystr option \<Rightarrow> tag \<Rightarrow> tag list" where
  "find_all nm cls t = filter (matches nm cls) (descendants t)"

definition find :: "pystr \<Rightarrow> pystr option \<Rightarrow> tag \<Rightarrow> tag option" where
  "find nm cls t = (case find_all nm cls t of [] \<Rightarrow> None | x # _ \<Rightarrow> Some x)"

section \<open>The rating decoder\<close>

text \<open>The dictionary \<^verbatim>\<open>mapping\<close> of \<^verbatim>\<open>extract_rating_int\<close>.\<close>

definition mapping :: "pystr \<rightharpoonup> int" where
  "mapping = map_of
     [(str ''one'', 1), (str ''two'', 2), (str ''three'', 3), (str ''four'', 4), (str ''five'', 5)]"

text \<open>
  \<^verbatim>\<open>extract_rating_int(star_tag)\<close>. The argument is what \<^verbatim>\<open>find\<close> returned: a tag or
  \<^verbatim>\<open>None\<close>; a tag is always true in a condition, so \<^verbatim>\<open>not star_tag\<close> holds of \<^verbatim>\<open>None\<close>
  only. The result is an integer or \<^verbatim>\<open>None\<close>.
\<close>

definition extract_rating_int :: "tag option \<Rightarrow> int option" where
  "extract_rating_int star_tag =
     (case star_tag of
        None \<Rightarrow> None
      | Some t \<Rightarrow>
          let classes = (case attr_class (attrs t) of None \<Rightarrow> [] | Some cs \<Rightarrow> cs);
              words = filter (\<lambda>c. lower c \<noteq> str ''star-rating'') classes
          in (case words of [] \<Rightarrow> None | word # _ \<Rightarrow> mapping (lower word)))"

section \<open>The environment of a run\<close>

text \<open>
  What the program raises. \<open>RequestException\<close> stands for whatever \<^verbatim>\<open>requests.get\<close>
  raises itself (a connection error, a time-out, too many redirects); \<open>HTTPError\<close> is
  what \<^verbatim>\<open>raise_for_status\<close> raises, with the status code.
\<close>

datatype error = AttributeError | KeyError | ValueError | HTTPError nat | RequestException

text \<open>
  A response: its status code, and the tree that
  \<^verbatim>\<open>BeautifulSoup(response.content, 'html.parser')\<close> builds from its body.
\<close>

record response =
  status_code :: nat
  soup :: tag

text \<open>
  \<^verbatim>\<open>response.raise_for_status()\<close> of the \<^verbatim>\<open>requests\<close> library raises for the status codes
  400 to 599 (client and server errors) and returns for every other code.
\<close>

definition raise_for_status :: "response \<Rightarrow> error option" where
  "raise_for_status r =
     (if 400 \<le> status_code r \<and> status_code r < 600 then Some (HTTPError (status_code r)) else None)"

text \<open>
  What a run takes from outside the program:
  \<^item> \<open>requests_get n u\<close>, the answer to \<^verbatim>\<open>requests.get(u, headers=headers, timeout=10)\<close>
    when \<open>n\<close> requests were made before it in this run (the network may answer the
    same address differently each time); \<open>None\<close> when the call raises;
  \<^item> \<open>py_float\<close>, the builtin \<^verbatim>\<open>float\<close> on strings, \<open>None\<close> for its \<^verbatim>\<open>ValueError\<close>; the
    type \<open>'f\<close> is the type of floating-point numbers;
  \<^item> \<open>urljoin\<close>, \<^verbatim>\<open>urllib.parse.urljoin\<close>;
  \<^item> \<open>pd\<close>, whether \<^verbatim>\<open>import pandas as pd\<close> succeeded; if not, the module sets
    \<^verbatim>\<open>pd = None\<close> and goes on.
\<close>

record 'f env =
  requests_get :: "nat \<Rightarrow> pystr \<Rightarrow> response option"
  py_float :: "pystr \<Rightarrow> 'f option"
  urljoin :: "pystr \<Rightarrow> pystr \<Rightarrow> pystr"
  pd :: bool

section \<open>Extraction of one item\<close>

text \<open>One dictionary of \<^verbatim>\<open>results\<close>, which becomes one row of the data frame.\<close>

record 'f row =
  title :: pystr
  price :: 'f
  rating :: "int option"

text \<open>
  The body of the loop \<^verbatim>\<open>for book in books\<close> (lines 77 to 87; lines 127 to 131 of the
  test mode are the same statements), one definition for each field. A method
  called on the \<^verbatim>\<open>None\<close> that \<^verbatim>\<open>find\<close> returned raises \<^verbatim>\<open>AttributeError\<close>.
\<close>

definition title_of :: "tag \<Rightarrow> error + pystr" where
  "title_of book =
     (case find (str ''h3'') None book of
        None \<Rightarrow> Inl AttributeError
      | Some h3 \<Rightarrow>
          (case find (str ''a'') None h3 of
             None \<Rightarrow> Inl AttributeError
           | Some title_tag \<Rightarrow>
               Inr (strip (case attr_title (attrs title_tag) of None \<Rightarrow> [] | Some t \<Rightarrow> t))))"

definition price_of :: "'f env \<Rightarrow> tag \<Rightarrow> error + 'f" where
  "price_of w book =
     (case find (str ''p'') (Some (str ''price_color'')) book of
        None \<Rightarrow> Inl AttributeError
      | Some p \<Rightarrow>
          let price_text = strip (get_text p)
          in (case py_float w (strip (replace 163 [] price_text)) of
                None \<Rightarrow> Inl ValueError
              | Some x \<Rightarrow> Inr x))"

definition rating_of :: "tag \<Rightarrow> int option" where
  "rating_of book = extract_rating_int (find (str ''p'') (Some (str ''star-rating'')) book)"

definition book_record :: "'f env \<Rightarrow> tag \<Rightarrow> error + 'f row" where
  "book_record w book =
     (case title_of book of
        Inl e \<Rightarrow> Inl e
      | Inr t \<Rightarrow>
          (case price_of w book of
             Inl e \<Rightarrow> Inl e
           | Inr x \<Rightarrow> Inr \<lparr>title = t, price = x, rating = rating_of book\<rparr>))"

text \<open>
  The loop \<^verbatim>\<open>for book in books\<close>: each record is appended to \<^verbatim>\<open>results\<close>; the first
  exception ends the loop and the function.
\<close>

fun for_books :: "'f env \<Rightarrow> tag list \<Rightarrow> 'f row list \<Rightarrow> error + 'f row list" where
  "for_books w [] results = Inr results"
| "for_books w (book # books) results =
     (case book_record w book of
        Inl e \<Rightarrow> Inl e
      | Inr r \<Rightarrow> for_books w books (results @ [r]))"

section \<open>The pagination driver\<close>

text \<open>The value of \<^verbatim>\<open>next_li and next_li.find('a')\<close> (lines 93 and 94).\<close>

definition next_a :: "tag \<Rightarrow> tag option" where
  "next_a page =
     (case find (str ''li'') (Some (str ''next'')) page of
        None \<Rightarrow> None
      | Some next_li \<Rightarrow> find (str ''a'') None next_li)"

text \<open>
  One pass through the body of \<^verbatim>\<open>while True\<close> (lines 63 to 101), which requests
  \<open>url\<close> after \<open>n\<close> earlier requests: it raises, leaves the loop with the results,
  or goes round again with the next address and the results. The \<^verbatim>\<open>print\<close>, the page
  counter it prints and the \<^verbatim>\<open>time.sleep(1)\<close> have no part in any result.
\<close>

datatype 'f outcome = Raise error | Break "'f row list" | Continue pystr "'f row list"

definition iteration :: "'f env \<Rightarrow> nat \<Rightarrow> pystr \<Rightarrow> 'f row list \<Rightarrow> 'f outcome" where
  "iteration w n url results =
     (case requests_get w n url of
        None \<Rightarrow> Raise RequestException
      | Some response \<Rightarrow>
          (case raise_for_status response of
             Some e \<Rightarrow> Raise e
           | None \<Rightarrow>
               let books = find_all (str ''article'') (Some (str ''product_pod'')) (soup response)
               in if books = [] then Break results
                  else (case for_books w books results of
                          Inl e \<Rightarrow> Raise e
                        | Inr results' \<Rightarrow>
                            (case next_a (soup response) of
                               None \<Rightarrow> Break results'
                             | Some a \<Rightarrow>
                                 (case attr_href (attrs a) of
                                    None \<Rightarrow> Raise KeyError
                                  | Some next_href \<Rightarrow>
                                      Continue (urljoin w url next_href) results')))))"

text \<open>
  The loop. It may run for ever (a chain of next links need not end), so its value
  is an option, \<open>None\<close> for a run that never leaves the loop. \<open>fetched\<close> is not a
  variable of the program: it lists the addresses requested so far, oldest first,
  so that a result tells which requests the run made.
\<close>

partial_function (option) while_loop ::
  "'f env \<Rightarrow> pystr list \<Rightarrow> pystr \<Rightarrow> 'f row list \<Rightarrow> (pystr list \<times> (error + 'f row list)) option" where
  "while_loop w fetched url results =
     (case iteration w (length fetched) url results of
        Raise e \<Rightarrow> Some (fetched @ [url], Inl e)
      | Break results' \<Rightarrow> Some (fetched @ [url], Inr results')
      | Continue url' results' \<Rightarrow> while_loop w (fetched @ [url]) url' results')"

text \<open>
  \<^verbatim>\<open>scrape_all_pages(base_url)\<close>: the loop from \<^verbatim>\<open>url = base_url\<close> and \<^verbatim>\<open>results = []\<close>,
  then \<^verbatim>\<open>pd.DataFrame(results, columns=['title', 'price', 'rating'])\<close>. The data frame
  is the list of its rows. Where pandas was not imported, \<^verbatim>\<open>pd\<close> is \<^verbatim>\<open>None\<close> and the last
  step raises \<^verbatim>\<open>AttributeError\<close>; the script checks \<^verbatim>\<open>pd is None\<close> before it calls
  the function (line 137). The result is the requests made, with the exception
  raised or the data frame returned.
\<close>

definition scrape_all_pages ::
  "'f env \<Rightarrow> pystr \<Rightarrow> (pystr list \<times> (error + 'f row list)) option" where
  "scrape_all_pages w base_url =
     (case while_loop w [] base_url [] of
        None \<Rightarrow> None
      | Some (fetched, Inl e) \<Rightarrow> Some (fetched, Inl e)
      | Some (fetched, Inr results) \<Rightarrow>
          Some (fetched, if pd w then Inr results else Inl AttributeError))"

text \<open>
  The state of the loop at the start of pass \<open>k\<close> (counted from 0), when the run
  gets that far: the requests made, the address to request now, and the results.
\<close>

fun state_after :: "'f env \<Rightarrow> pystr \<Rightarrow> nat \<Rightarrow> (pystr list \<times> pystr \<times> 'f row list) option" where
  "state_after w base_url 0 = Some ([], base_url, [])"
| "state_after w base_url (Suc k) =
     (case state_after w base_url k of
        None \<Rightarrow> None
      | Some (fetched, url, results) \<Rightarrow>
          (case iteration w (length fetched) url results of
             Continue url' results' \<Rightarrow> Some (fetched @ [url], url', results')
           | _ \<Rightarrow> None))"

section \<open>Conditions used in the statements\<close>

text \<open>
  \<open>any_case s r\<close> says that the string \<open>s\<close> is the ASCII word \<open>r\<close> with each of
  its lower-case letters written in either case. \<open>rank_words\<close> are the five rank
  words with their integers.
\<close>

definition any_case :: "pystr \<Rightarrow> string \<Rightarrow> bool" where
  "any_case s r =
     list_all2 (\<lambda>c a. c = of_char a \<or> (97 \<le> (of_char a :: nat) \<and> (of_char a :: nat) \<le> 122 \<and> c + 32 = of_char a)) s r"

definition rank_words :: "(string \<times> int) list" where
  "rank_words = [(''one'', 1), (''two'', 2), (''three'', 3), (''four'', 4), (''five'', 5)]"

text \<open>
  The price of an item is malformed when the container has no price element, or the
  text of that element, trimmed and without the pound sign, is not a number for
  \<^verbatim>\<open>float\<close>.
\<close>

definition price_malformed :: "'f env \<Rightarrow> tag \<Rightarrow> bool" where
  "price_malformed w book =
     (case find (str ''p'') (Some (str ''price_color'')) book of
        None \<Rightarrow> True
      | Some p \<Rightarrow> py_float w (strip (replace 163 [] (strip (get_text p)))) = None)"

section \<open>Example documents\<close>

text \<open>
  Pages of the shape of books.toscrape.com, for the concrete instances of the
  theorems. A book is given by the title attribute of its link (if any), the text of
  its price element and the rank word of its rating; a page by its books and the
  href of its next link (if any). \<open>p_tag\<close> is a rating indicator with the given
  class tokens. \<open>example_float\<close> knows two prices, as rational numbers;
  \<open>example_urljoin\<close> replaces what follows the last slash of the address;
  \<open>example_env site\<close> answers each request from the list \<open>site\<close> of addresses with
  status code and page, and raises for an address not in it.
\<close>

definition p_tag :: "pystr list \<Rightarrow> tag" where
  "p_tag classes = Tag (str ''p'') \<lparr>attr_class = Some classes, attr_title = None, attr_href = None\<rparr> []"

definition elem :: "string \<Rightarrow> string list \<Rightarrow> node list \<Rightarrow> tag" where
  "elem nm classes cs =
     Tag (str nm)
       \<lparr>attr_class = (if classes = [] then None else Some (map str classes)),
        attr_title = None, attr_href = None\<rparr> cs"

definition link :: "pystr option \<Rightarrow> pystr option \<Rightarrow> tag" where
  "link t h = Tag (str ''a'') \<lparr>attr_class = None, attr_title = t, attr_href = h\<rparr> []"

definition example_book :: "pystr option \<times> pystr \<times> string \<Rightarrow> tag" where
  "example_book = (\<lambda>(t, price_text, rank).
     elem ''article'' [''product_pod'']
       [TagNode (elem ''p'' [''star-rating'', rank] []),
        TagNode (elem ''h3'' [] [TagNode (link t (Some (str ''book.html'')))]),
        TagNode (elem ''div'' [''product_price'']
          [TagNode (elem ''p'' [''price_color''] [StringNode price_text])])])"

definition example_page :: "(pystr option \<times> pystr \<times> string) list \<Rightarrow> pystr option \<Rightarrow> tag" where
  "example_page books next_href =
     elem ''[document]'' []
       (map (\<lambda>b. TagNode (example_book b)) books @
        (case next_href of
           None \<Rightarrow> []
         | Some h \<Rightarrow> [TagNode (elem ''li'' [''next''] [TagNode (link None (Some h))])]))"

definition example_float :: "pystr \<Rightarrow> rat option" where
  "example_float s =
     (if s = str ''51.77'' then Some 51.77 else if s = str ''53.74'' then Some 53.74 else None)"

definition example_urljoin :: "pystr \<Rightarrow> pystr \<Rightarrow> pystr" where
  "example_urljoin u h = rev (dropWhile (\<lambda>c. c \<noteq> 47) (rev u)) @ h"

definition example_env :: "(pystr \<times> nat \<times> tag) list \<Rightarrow> rat env" where
  "example_env site =
     \<lparr>requests_get = (\<lambda>n u. map_option (\<lambda>(c, p). \<lparr>status_code = c, soup = p\<rparr>) (map_of site u)),
      py_float = example_float, urljoin = example_urljoin, pd = True\<rparr>"

definition attic :: "pystr option \<times> pystr \<times> string" where
  "attic = (Some (str '' A Light in the Attic ''), 163 # str ''51.77'', ''Three'')"

definition velvet :: "pystr option \<times> pystr \<times> string" where
  "velvet = (Some (str ''Tipping the Velvet''), 163 # str ''53.74'', ''One'')"

definition free_book :: "pystr option \<times> pystr \<times> string" where
  "free_book = (Some (str ''Soumission''), str ''free'', ''Two'')"

definition attic_row :: "rat row" where
  "attic_row = \<lparr>title = str ''A Light in the Attic'', price = 51.77, rating = Some 3\<rparr>"

definition velvet_row :: "rat row" where
  "velvet_row = \<lparr>title = str ''Tipping the Velvet'', price = 53.74, rating = Some 1\<rparr>"

definition home :: pystr where
  "home = str ''http://books/''"

text \<open>The sites of the instances.\<close>

definition two_pages :: "(pystr \<times> nat \<times> tag) list" where
  "two_pages =
     [(home, 200, example_page [attic] (Some (str ''page-2.html''))),
      (str ''http://books/page-2.html'', 200, example_page [velvet] None)]"

definition empty_then_more :: "(pystr \<times> nat \<times> tag) list" where
  "empty_then_more =
     [(home, 200, example_page [] (Some (str ''page-2.html''))),
      (str ''http://books/page-2.html'', 200, example_page [velvet] None)]"


definition bad_price :: "(pystr \<times> nat \<times> tag) list" where
  "bad_price =
     [(home, 200, example_page [attic] (Some (str ''page-2.html''))),
      (str ''http://books/page-2.html'', 200, example_page [velvet, free_book, attic] None)]"

definition not_found :: "(pystr \<times> nat \<times> tag) list" where
  "not_found =
     [(home, 200, example_page [attic] (Some (str ''page-2.html''))),
      (str ''http://books/page-2.html'', 404, example_page [] None)]"

definition unreachable :: "(pystr \<times> nat \<times> tag) list" where
  "unreachable = [(home, 200, example_page [attic] (Some (str ''page-2.html'')))]"

definition multiple_choices :: "(pystr \<times> nat \<times> tag) list" where
  "multiple_choices =
     [(home, 300, example_page [attic] (Some (str ''page-2.html''))),
      (str ''http://books/page-2.html'', 200, example_page [velvet] None)]"

definition free_only :: "(pystr \<times> nat \<times> tag) list" where
  "free_only = [(home, 200, example_page [free_book] None)]"

section \<open>Properties of the rating decoder\<close>

lemma any_case_lower:
  assumes "\<forall>a \<in> set r. \<not> (65 \<le> (of_char a :: nat) \<and> (of_char a :: nat) \<le> 90)"
  shows "any_case s r \<longleftrightarrow> lower s = str r"
  using assms
proof (induction s arbitrary: r)
  case Nil
  then show ?case by (auto simp: any_case_def lower_def str_def)
next
  case (Cons c s)
  show ?case
  proof (cases r)
    case Nil
    then show ?thesis by (simp add: any_case_def lower_def str_def)
  next
    case (Cons a r')
    have ih: "any_case s r' \<longleftrightarrow> lower s = str r'"
      using Cons.IH [of r'] Cons.prems Cons by simp
    have a: "\<not> (65 \<le> (of_char a :: nat) \<and> (of_char a :: nat) \<le> 90)"
      using Cons.prems Cons by simp
    have "any_case (c # s) (a # r') \<longleftrightarrow>
        (c = of_char a \<or> (97 \<le> (of_char a :: nat) \<and> (of_char a :: nat) \<le> 122 \<and> c + 32 = of_char a))
        \<and> any_case s r'"
      by (simp add: any_case_def)
    also have "\<dots> \<longleftrightarrow> lower_cp c = of_char a \<and> lower s = str r'"
      using a ih by (auto simp: lower_cp_def)
    also have "\<dots> \<longleftrightarrow> lower (c # s) = str (a # r')"
      by (simp add: lower_def str_def)
    finally show ?thesis using Cons by simp
  qed
qed

lemma any_case_marker: "any_case c ''star-rating'' \<longleftrightarrow> lower c = str ''star-rating''"
  by (rule any_case_lower) simp

lemma any_case_rank:
  assumes "(r, k) \<in> set rank_words"
  shows "any_case s r \<longleftrightarrow> lower s = str r"
  using assms by (intro any_case_lower) (auto simp: rank_words_def)

lemma mapping_rank:
  assumes "(r, k) \<in> set rank_words"
  shows "mapping (str r) = Some k"
  using assms by (auto simp: rank_words_def mapping_def str_def)

lemma mapping_Some:
  assumes "mapping s = Some k"
  shows "\<exists>r. (r, k) \<in> set rank_words \<and> s = str r"
  using assms by (auto simp: rank_words_def mapping_def split: if_splits)

lemma extract_rating_int_first_word:
  assumes "attr_class (attrs t) = Some classes"
    and "filter (\<lambda>c. \<not> any_case c ''star-rating'') classes = word # rest"
  shows "extract_rating_int (Some t) = mapping (lower word)"
  using assms by (simp add: extract_rating_int_def any_case_marker)

text \<open>
  Claim C1. When the class tokens of a rating indicator are the marker token
  \<^verbatim>\<open>star-rating\<close> (any number of times, anywhere in the list) and exactly one other
  token, and that token is one of the rank words one, two, three, four, five, every
  token in any letter case, then \<open>extract_rating_int\<close> returns the integer of that
  word.
\<close>

theorem extract_rating_int_rank_word:
  assumes "attr_class (attrs t) = Some classes"
    and "filter (\<lambda>c. \<not> any_case c ''star-rating'') classes = [word]"
    and "(r, k) \<in> set rank_words"
    and "any_case word r"
  shows "extract_rating_int (Some t) = Some k"
proof -
  have "lower word = str r"
    using assms(3,4) any_case_rank by blast
  then show ?thesis
    using extract_rating_int_first_word [OF assms(1,2)] mapping_rank [OF assms(3)] by simp
qed

theorem extract_rating_int_rank_word_witness:
  "extract_rating_int (Some (p_tag [str ''Star-Rating'', str ''Four''])) = Some 4
   \<and> extract_rating_int (Some (p_tag [str ''star-rating'', str ''FOUR''])) = Some 4"
proof -
  have r: "(''four'', 4) \<in> set rank_words"
    by (simp add: rank_words_def)
  have c: "attr_class (attrs (p_tag classes)) = Some classes" for classes
    by (simp add: p_tag_def)
  have f1: "filter (\<lambda>c. \<not> any_case c ''star-rating'') [str ''Star-Rating'', str ''Four''] = [str ''Four'']"
    unfolding any_case_def str_def by simp
  have f2: "filter (\<lambda>c. \<not> any_case c ''star-rating'') [str ''star-rating'', str ''FOUR''] = [str ''FOUR'']"
    unfolding any_case_def str_def by simp
  have a1: "any_case (str ''Four'') ''four''"
    unfolding any_case_def str_def by simp
  have a2: "any_case (str ''FOUR'') ''four''"
    unfolding any_case_def str_def by simp
  show ?thesis
    using extract_rating_int_rank_word [OF c f1 r a1] extract_rating_int_rank_word [OF c f2 r a2]
    by simp
qed

text \<open>
  Claim C2. \<open>extract_rating_int\<close> returns \<^verbatim>\<open>None\<close>, and not an error or a default
  rating, for an absent indicator, for an indicator without a class attribute, for a
  token list that holds marker tokens only, and whenever the first token that is not
  the marker is none of the five rank words in any letter case. (The function has no
  error result at all: none of its steps can raise on a tag.)
\<close>

theorem extract_rating_int_absent:
  "extract_rating_int None = None
   \<and> (attr_class (attrs t) = None \<longrightarrow> extract_rating_int (Some t) = None)
   \<and> (attr_class (attrs t) = Some classes \<and> (\<forall>c \<in> set classes. any_case c ''star-rating'')
        \<longrightarrow> extract_rating_int (Some t) = None)
   \<and> (attr_class (attrs t) = Some classes
        \<and> filter (\<lambda>c. \<not> any_case c ''star-rating'') classes = word # rest
        \<and> (\<forall>(r, k) \<in> set rank_words. \<not> any_case word r)
        \<longrightarrow> extract_rating_int (Some t) = None)"
proof (intro conjI impI)
  show "extract_rating_int None = None"
    by (simp add: extract_rating_int_def)
next
  assume "attr_class (attrs t) = None"
  then show "extract_rating_int (Some t) = None"
    by (simp add: extract_rating_int_def)
next
  assume a: "attr_class (attrs t) = Some classes \<and> (\<forall>c \<in> set classes. any_case c ''star-rating'')"
  then have "filter (\<lambda>c. lower c \<noteq> str ''star-rating'') classes = []"
    by (simp add: any_case_marker)
  with a show "extract_rating_int (Some t) = None"
    by (simp add: extract_rating_int_def)
next
  assume a: "attr_class (attrs t) = Some classes
        \<and> filter (\<lambda>c. \<not> any_case c ''star-rating'') classes = word # rest
        \<and> (\<forall>(r, k) \<in> set rank_words. \<not> any_case word r)"
  have "mapping (lower word) = None"
  proof (cases "mapping (lower word)")
    case None
    then show ?thesis .
  next
    case (Some k)
    then obtain r where r: "(r, k) \<in> set rank_words" "lower word = str r"
      using mapping_Some by blast
    then have "any_case word r"
      using any_case_rank by blast
    with a r(1) show ?thesis by blast
  qed
  with a show "extract_rating_int (Some t) = None"
    using extract_rating_int_first_word by simp
qed

theorem extract_rating_int_absent_witness:
  "extract_rating_int None = None
   \<and> extract_rating_int (Some (Tag (str ''p'') \<lparr>attr_class = None, attr_title = None, attr_href = None\<rparr> [])) = None
   \<and> extract_rating_int (Some (p_tag [str ''star-rating'', str ''Star-Rating''])) = None
   \<and> extract_rating_int (Some (p_tag [str ''star-rating'', str ''Six'', str ''Four''])) = None"
proof -
  let ?t = "Tag (str ''p'') \<lparr>attr_class = None, attr_title = None, attr_href = None\<rparr> []"
  have 1: "attr_class (attrs ?t) = None"
    by simp
  have 2: "attr_class (attrs (p_tag [str ''star-rating'', str ''Star-Rating''])) = Some [str ''star-rating'', str ''Star-Rating'']
      \<and> (\<forall>c \<in> set [str ''star-rating'', str ''Star-Rating'']. any_case c ''star-rating'')"
    by (simp add: p_tag_def any_case_def str_def)
  have 3: "attr_class (attrs (p_tag [str ''star-rating'', str ''Six'', str ''Four''])) = Some [str ''star-rating'', str ''Six'', str ''Four'']
      \<and> filter (\<lambda>c. \<not> any_case c ''star-rating'') [str ''star-rating'', str ''Six'', str ''Four''] = str ''Six'' # [str ''Four'']
      \<and> (\<forall>(r, k) \<in> set rank_words. \<not> any_case (str ''Six'') r)"
    by (simp add: p_tag_def any_case_def str_def rank_words_def)
  show ?thesis
    using 1 2 3
      extract_rating_int_absent [of ?t]
      extract_rating_int_absent [of "p_tag [str ''star-rating'', str ''Star-Rating'']" "[str ''star-rating'', str ''Star-Rating'']"]
      extract_rating_int_absent [of "p_tag [str ''star-rating'', str ''Six'', str ''Four'']" "[str ''star-rating'', str ''Six'', str ''Four'']" "str ''Six''" "[str ''Four'']"]
    by blast
qed

section \<open>Properties of the extraction of one item\<close>

lemma strip_surrounded:
  assumes "\<forall>c \<in> set a. isspace c" and "\<forall>c \<in> set b. isspace c"
    and "s \<noteq> []" and "\<not> isspace (hd s)" and "\<not> isspace (last s)"
  shows "strip (a @ s @ b) = s"
proof -
  have "dropWhile isspace (a @ s @ b) = dropWhile isspace (s @ b)"
    by (rule dropWhile_append2) (use assms(1) in simp)
  also have "\<dots> = s @ b"
    using assms(3,4) by (cases s) simp_all
  finally have 1: "dropWhile isspace (a @ s @ b) = s @ b" .
  have "dropWhile isspace (rev b @ rev s) = dropWhile isspace (rev s)"
    by (rule dropWhile_append2) (use assms(2) in simp)
  also have "\<dots> = rev s"
    using assms(3,5) by (cases s rule: rev_cases) simp_all
  finally have "dropWhile isspace (rev b @ rev s) = rev s" .
  with 1 show ?thesis by (simp add: strip_def)
qed

lemma strip_price:
  assumes "\<forall>c \<in> set a. isspace c" and "\<forall>c \<in> set b. isspace c"
  shows "strip (replace 163 [] (strip (a @ 163 # str ''51.77'' @ b))) = str ''51.77''"
proof -
  have "strip (a @ (163 # str ''51.77'') @ b) = 163 # str ''51.77''"
    using assms by (intro strip_surrounded) (simp_all add: isspace_def str_def)
  then have "strip (a @ 163 # str ''51.77'' @ b) = 163 # str ''51.77''" by simp
  moreover have "replace 163 [] (163 # str ''51.77'') = str ''51.77''"
    by (simp add: replace_def str_def)
  moreover have "strip (str ''51.77'') = str ''51.77''"
    by (simp add: strip_def str_def isspace_def)
  ultimately show ?thesis by simp
qed

lemma price_malformed_fails:
  assumes "price_malformed w b"
  shows "\<exists>e. book_record w b = Inl e"
  using assms
  by (auto simp: price_malformed_def book_record_def price_of_def Let_def split: sum.splits option.splits)

lemma book_record_error:
  assumes "book_record w b = Inl e"
  shows "e = AttributeError \<or> e = ValueError"
  using assms
  by (auto simp: book_record_def title_of_def price_of_def Let_def split: sum.splits option.splits)

section \<open>Properties of the loops\<close>

lemma for_books_append:
  "for_books w (xs @ ys) results =
     (case for_books w xs results of Inl e \<Rightarrow> Inl e | Inr r \<Rightarrow> for_books w ys r)"
  by (induction xs arbitrary: results) (auto split: sum.splits)

lemma for_books_ok:
  assumes "list_all2 (\<lambda>b r. book_record w b = Inr r) books rows"
  shows "for_books w books results = Inr (results @ rows)"
  using assms by (induction books rows arbitrary: results rule: list_all2_induct) auto

lemma for_books_first_failure:
  assumes "book_record w bad = Inl e"
  shows "for_books w (pre @ bad # post) results = for_books w (pre @ [bad]) results"
  using assms by (simp add: for_books_append split: sum.splits)

lemma for_books_error:
  assumes "for_books w books results = Inl e"
  shows "e = AttributeError \<or> e = ValueError"
  using assms
  by (induction books arbitrary: results) (auto split: sum.splits dest: book_record_error)

lemma for_books_member_fails:
  assumes "bad \<in> set books" and "book_record w bad = Inl e"
  shows "\<exists>e'. for_books w books results = Inl e'"
  using assms
  by (induction books arbitrary: results) (auto split: sum.splits)

lemma while_loop_state_after:
  assumes "state_after w base_url k = Some (fetched, url, results)"
  shows "while_loop w [] base_url [] = while_loop w fetched url results"
  using assms
proof (induction k arbitrary: fetched url results)
  case 0
  then show ?case by simp
next
  case (Suc k)
  then obtain f u r where s: "state_after w base_url k = Some (f, u, r)"
    and i: "iteration w (length f) u r = Continue url results" and f: "fetched = f @ [u]"
    by (auto split: option.splits outcome.splits)
  have "while_loop w [] base_url [] = while_loop w f u r"
    using Suc.IH [OF s] .
  also have "\<dots> = while_loop w (f @ [u]) url results"
    using i by (simp add: while_loop.simps [of w f u r])
  finally show ?case using f by simp
qed



lemma scrape_all_pages_raise:
  assumes "state_after w base_url k = Some (fetched, url, results)"
    and "iteration w (length fetched) url results = Raise e"
  shows "scrape_all_pages w base_url = Some (fetched @ [url], Inl e)"
  using assms while_loop_state_after [OF assms(1)]
  by (simp add: scrape_all_pages_def while_loop.simps [of w fetched url results])

lemma scrape_all_pages_break:
  assumes "state_after w base_url k = Some (fetched, url, results)"
    and "iteration w (length fetched) url results = Break results'"
  shows "scrape_all_pages w base_url =
    Some (fetched @ [url], if pd w then Inr results' else Inl AttributeError)"
  using assms while_loop_state_after [OF assms(1)]
  by (simp add: scrape_all_pages_def while_loop.simps [of w fetched url results])



lemma iteration_continue:
  assumes "requests_get w n url = Some response"
    and "raise_for_status response = None"
    and "find_all (str ''article'') (Some (str ''product_pod'')) (soup response) \<noteq> []"
    and "list_all2 (\<lambda>b r. book_record w b = Inr r)
           (find_all (str ''article'') (Some (str ''product_pod'')) (soup response)) rows"
    and "next_a (soup response) = Some a"
    and "attr_href (attrs a) = Some next_href"
  shows "iteration w n url results = Continue (urljoin w url next_href) (results @ rows)"
  using assms by (simp add: iteration_def for_books_ok)

lemma iteration_last_page:
  assumes "requests_get w n url = Some response"
    and "raise_for_status response = None"
    and "list_all2 (\<lambda>b r. book_record w b = Inr r)
           (find_all (str ''article'') (Some (str ''product_pod'')) (soup response)) rows"
    and "next_a (soup response) = None"
  shows "iteration w n url results = Break (results @ rows)"
proof (cases "find_all (str ''article'') (Some (str ''product_pod'')) (soup response) = []")
  case True
  with assms show ?thesis by (simp add: iteration_def)
next
  case False
  with assms show ?thesis by (simp add: iteration_def for_books_ok)
qed

lemma iteration_no_next:
  assumes "requests_get w n url = Some response"
    and "next_a (soup response) = None"
  shows "iteration w n url results \<noteq> Continue url' results'"
  using assms
  by (auto simp: iteration_def Let_def split: option.splits sum.splits)


section \<open>The example documents evaluated\<close>

lemmas example_defs = elem_def link_def example_book_def example_float_def
  example_env_def find_all_def find_def matches_def
  title_of_def price_of_def rating_of_def book_record_def extract_rating_int_def mapping_def
  strip_def replace_def isspace_def lower_def lower_cp_def str_def

lemma book_record_attic: "book_record (example_env site) (example_book attic) = Inr attic_row"
  by (simp add: attic_def attic_row_def example_defs)

lemma book_record_velvet: "book_record (example_env site) (example_book velvet) = Inr velvet_row"
  by (simp add: velvet_def velvet_row_def example_defs)

lemma book_record_free_book:
  "book_record (example_env site) (example_book free_book) = Inl ValueError"
  by (simp add: free_book_def example_defs)

lemma descendants_nodes_books:
  "descendants_nodes (map (\<lambda>b. TagNode (example_book b)) books @ rest) =
     concat (map (\<lambda>b. example_book b # descendants (example_book b)) books)
       @ descendants_nodes rest"
  by (induction books) auto

lemma filter_article_book:
  "matches (str ''article'') (Some (str ''product_pod'')) (example_book b)"
  "filter (matches (str ''article'') (Some (str ''product_pod''))) (descendants (example_book b)) = []"
  by (simp_all add: example_book_def elem_def link_def matches_def str_def split: prod.splits)

lemma filter_li_book:
  "\<not> matches (str ''li'') (Some (str ''next'')) (example_book b)"
  "filter (matches (str ''li'') (Some (str ''next''))) (descendants (example_book b)) = []"
  by (simp_all add: example_book_def elem_def link_def matches_def str_def split: prod.splits)

lemma find_all_example_page:
  "find_all (str ''article'') (Some (str ''product_pod'')) (example_page books nxt) =
     map example_book books"
proof -
  have "filter (matches (str ''article'') (Some (str ''product_pod'')))
      (concat (map (\<lambda>b. example_book b # descendants (example_book b)) books)) =
    map example_book books"
    by (induction books) (simp_all add: filter_article_book)
  moreover have "filter (matches (str ''article'') (Some (str ''product_pod'')))
      (descendants_nodes (case nxt of None \<Rightarrow> []
         | Some h \<Rightarrow> [TagNode (elem ''li'' [''next''] [TagNode (link None (Some h))])])) = []"
    by (simp add: elem_def link_def matches_def str_def split: option.splits)
  ultimately show ?thesis
    by (simp add: find_all_def example_page_def elem_def [of "''[document]''"] descendants_nodes_books)
qed

lemma next_a_example_page:
  "next_a (example_page books nxt) =
     (case nxt of None \<Rightarrow> None | Some h \<Rightarrow> Some (link None (Some h)))"
proof -
  have "filter (matches (str ''li'') (Some (str ''next'')))
      (concat (map (\<lambda>b. example_book b # descendants (example_book b)) books)) = []"
    by (induction books) (simp_all add: filter_li_book)
  moreover have "filter (matches (str ''li'') (Some (str ''next'')))
      (descendants_nodes (case nxt of None \<Rightarrow> []
         | Some h \<Rightarrow> [TagNode (elem ''li'' [''next''] [TagNode (link None (Some h))])])) =
      (case nxt of None \<Rightarrow> [] | Some h \<Rightarrow> [elem ''li'' [''next''] [TagNode (link None (Some h))]])"
    by (simp add: elem_def link_def matches_def str_def split: option.splits)
  ultimately have "find_all (str ''li'') (Some (str ''next'')) (example_page books nxt) =
      (case nxt of None \<Rightarrow> [] | Some h \<Rightarrow> [elem ''li'' [''next''] [TagNode (link None (Some h))]])"
    by (simp add: find_all_def example_page_def elem_def [of "''[document]''"] descendants_nodes_books)
  moreover have "find (str ''a'') None (elem ''li'' [''next''] [TagNode (link None (Some h))]) = Some (link None (Some h))" for h
    by (simp add: find_def find_all_def elem_def link_def matches_def)
  ultimately show ?thesis
    by (simp add: next_a_def find_def split: option.splits)
qed

lemma find_li_example_page:
  "find (str ''li'') (Some (str ''next'')) (example_page books None) = None"
proof -
  have "filter (matches (str ''li'') (Some (str ''next'')))
      (concat (map (\<lambda>b. example_book b # descendants (example_book b)) books)) = []"
    by (induction books) (simp_all add: filter_li_book)
  then show ?thesis
    using descendants_nodes_books [of books "[]"]
    by (simp add: find_def find_all_def example_page_def elem_def [of "''[document]''"])
qed

lemma example_get:
  "requests_get (example_env site) n u = map_option (\<lambda>(c, p). \<lparr>status_code = c, soup = p\<rparr>) (map_of site u)"
  "urljoin (example_env site) = example_urljoin"
  "py_float (example_env site) = example_float"
  "pd (example_env site)"
  by (simp_all add: example_env_def)

lemma home_join:
  "example_urljoin home (str ''page-2.html'') = str ''http://books/page-2.html''"
  "example_urljoin home (str ''catalogue/page-2.html'') = str ''http://books/catalogue/page-2.html''"
  "example_urljoin (str ''http://books/catalogue/page-2.html'') (str ''page-3.html'') = str ''http://books/catalogue/page-3.html''"
  "example_urljoin home (str ''page-3.html'') = str ''http://books/page-3.html''"
  "str ''http://books/page-2.html'' \<noteq> home"
  "str ''http://books/catalogue/page-2.html'' \<noteq> home"
  "str ''http://books/catalogue/page-3.html'' \<noteq> home"
  "str ''http://books/catalogue/page-3.html'' \<noteq> str ''http://books/catalogue/page-2.html''"
  by (simp_all add: example_urljoin_def home_def str_def)

lemma first_page_continue:
  assumes "map_of site home = Some (c, example_page [attic] (Some h))" and "\<not> (400 \<le> c \<and> c < 600)"
  shows "state_after (example_env site) home (Suc 0) = Some ([home], example_urljoin home h, [attic_row])"
proof -
  have "iteration (example_env site) 0 home [] = Continue (urljoin (example_env site) home h) ([] @ [attic_row])"
  proof (rule iteration_continue)
    show "requests_get (example_env site) 0 home = Some \<lparr>status_code = c, soup = example_page [attic] (Some h)\<rparr>"
      using assms(1) by (simp add: example_get)
    show "raise_for_status \<lparr>status_code = c, soup = example_page [attic] (Some h)\<rparr> = None"
      using assms(2) by (simp add: raise_for_status_def)
    show "next_a (soup \<lparr>status_code = c, soup = example_page [attic] (Some h)\<rparr>) = Some (link None (Some h))"
      by (simp add: next_a_example_page)
    show "attr_href (attrs (link None (Some h))) = Some h"
      by (simp add: link_def)
  qed (simp_all add: find_all_example_page book_record_attic)
  then show ?thesis
    by (simp add: example_get)
qed

section \<open>Properties of the pagination driver and of the fields\<close>

text \<open>
  Claim C3, amended. When the first request is answered without an HTTP error by a
  page without a \<^verbatim>\<open>li\<close> of class \<^verbatim>\<open>next\<close>, \<open>scrape_all_pages\<close> ends after exactly
  one request, to the base address. If each of the \<open>N\<close> item containers of the
  page yields a record (and pandas is imported, as the script makes sure before the
  call), it returns a data frame of exactly these \<open>N\<close> records, in the order of the
  containers.
\<close>

theorem single_page_one_fetch:
  assumes "requests_get w 0 base_url = Some response"
    and "raise_for_status response = None"
    and "find (str ''li'') (Some (str ''next'')) (soup response) = None"
  shows "(\<exists>r. scrape_all_pages w base_url = Some ([base_url], r))
    \<and> (\<forall>rows.
          pd w
          \<and> list_all2 (\<lambda>b r. book_record w b = Inr r)
               (find_all (str ''article'') (Some (str ''product_pod'')) (soup response)) rows
          \<longrightarrow> scrape_all_pages w base_url = Some ([base_url], Inr rows)
              \<and> length rows = length (find_all (str ''article'') (Some (str ''product_pod'')) (soup response)))"
proof (intro conjI allI impI)
  have n: "next_a (soup response) = None"
    using assms(3) by (simp add: next_a_def)
  have s: "state_after w base_url 0 = Some ([], base_url, [])"
    by simp
  show "\<exists>r. scrape_all_pages w base_url = Some ([base_url], r)"
  proof (cases "iteration w (length ([] :: pystr list)) base_url []")
    case (Raise e)
    then show ?thesis
      using scrape_all_pages_raise [OF s] by fastforce
  next
    case (Break results)
    then show ?thesis
      using scrape_all_pages_break [OF s] by fastforce
  next
    case (Continue url' results')
    then show ?thesis
      using iteration_no_next [OF assms(1) n] by simp
  qed
  fix rows
  assume a: "pd w
          \<and> list_all2 (\<lambda>b r. book_record w b = Inr r)
               (find_all (str ''article'') (Some (str ''product_pod'')) (soup response)) rows"
  then have "iteration w (length ([] :: pystr list)) base_url [] = Break ([] @ rows)"
    using assms(1,2) n by (intro iteration_last_page) simp_all
  then have "scrape_all_pages w base_url =
      Some ([] @ [base_url], if pd w then Inr ([] @ rows) else Inl AttributeError)"
    by (rule scrape_all_pages_break [OF s])
  with a show "scrape_all_pages w base_url = Some ([base_url], Inr rows)"
    by simp
  from a show "length rows = length (find_all (str ''article'') (Some (str ''product_pod'')) (soup response))"
    using list_all2_lengthD by fastforce
qed

theorem single_page_one_fetch_witness:
  "scrape_all_pages (example_env [(home, 200, example_page [attic, velvet] None)]) home =
     Some ([home], Inr [attic_row, velvet_row])"
proof -
  let ?w = "example_env [(home, 200, example_page [attic, velvet] None)]"
  let ?r = "\<lparr>status_code = 200, soup = example_page [attic, velvet] None\<rparr>"
  have 1: "requests_get ?w 0 home = Some ?r"
    by (simp add: example_get)
  have 2: "raise_for_status ?r = None"
    by (simp add: raise_for_status_def)
  have 3: "find (str ''li'') (Some (str ''next'')) (soup ?r) = None"
    by (simp add: find_li_example_page)
  have 4: "pd ?w
      \<and> list_all2 (\<lambda>b r. book_record ?w b = Inr r)
           (find_all (str ''article'') (Some (str ''product_pod'')) (soup ?r)) [attic_row, velvet_row]"
    by (simp add: example_get find_all_example_page book_record_attic book_record_velvet)
  show ?thesis
    using single_page_one_fetch [OF 1 2 3] 4 by blast
qed

text \<open>
  Claim C3 as stated does not hold for a page with a container that yields no
  record: for one container with the price text \<^verbatim>\<open>free\<close> and no next marker, \<^verbatim>\<open>float\<close>
  raises at line 82 and the run ends with \<^verbatim>\<open>ValueError\<close>, returning no record
  where the claim has one.
\<close>

theorem single_page_counterexample:
  "requests_get (example_env free_only) 0 home =
     Some \<lparr>status_code = 200, soup = example_page [free_book] None\<rparr>
   \<and> find_all (str ''article'') (Some (str ''product_pod'')) (example_page [free_book] None) =
     [example_book free_book]
   \<and> find (str ''li'') (Some (str ''next'')) (example_page [free_book] None) = None
   \<and> scrape_all_pages (example_env free_only) home = Some ([home], Inl ValueError)
   \<and> (\<nexists>rows. scrape_all_pages (example_env free_only) home = Some ([home], Inr rows))"
proof -
  let ?w = "example_env free_only"
  have "iteration ?w 0 home [] = Raise ValueError"
    by (simp add: iteration_def example_get free_only_def raise_for_status_def
        find_all_example_page book_record_free_book)
  then have "scrape_all_pages ?w home = Some ([home], Inl ValueError)"
    by (simp add: scrape_all_pages_def while_loop.simps [of ?w "[]" home "[]"])
  then show ?thesis
    by (simp add: example_get free_only_def find_all_example_page find_li_example_page)
qed

text \<open>
  Claim C4, amended. When page 1 has at least one item container and a next link, the
  address of that link is answered by page 2, and page 2 has no next link, every
  container of the two pages yielding a record, then \<open>scrape_all_pages\<close> makes
  exactly two requests, to page 1 and then to page 2, and returns the records of
  page 1 followed by the records of page 2, each page's in container order.
\<close>

theorem two_pages_two_fetches:
  assumes "requests_get w 0 base_url = Some page1"
    and "raise_for_status page1 = None"
    and "find_all (str ''article'') (Some (str ''product_pod'')) (soup page1) \<noteq> []"
    and "list_all2 (\<lambda>b r. book_record w b = Inr r)
           (find_all (str ''article'') (Some (str ''product_pod'')) (soup page1)) rows1"
    and "next_a (soup page1) = Some a"
    and "attr_href (attrs a) = Some next_href"
    and "requests_get w 1 (urljoin w base_url next_href) = Some page2"
    and "raise_for_status page2 = None"
    and "list_all2 (\<lambda>b r. book_record w b = Inr r)
           (find_all (str ''article'') (Some (str ''product_pod'')) (soup page2)) rows2"
    and "next_a (soup page2) = None"
    and "pd w"
  shows "scrape_all_pages w base_url =
    Some ([base_url, urljoin w base_url next_href], Inr (rows1 @ rows2))"
proof -
  have "iteration w 0 base_url [] = Continue (urljoin w base_url next_href) ([] @ rows1)"
    using assms(1-6) by (rule iteration_continue)
  then have s: "state_after w base_url (Suc 0) = Some ([base_url], urljoin w base_url next_href, rows1)"
    by simp
  have "iteration w (length [base_url]) (urljoin w base_url next_href) rows1 = Break (rows1 @ rows2)"
    using assms(7-10) by (intro iteration_last_page) simp_all
  then have "scrape_all_pages w base_url = Some ([base_url] @ [urljoin w base_url next_href],
      if pd w then Inr (rows1 @ rows2) else Inl AttributeError)"
    by (rule scrape_all_pages_break [OF s])
  then show ?thesis
    using assms(11) by simp
qed

theorem two_pages_two_fetches_witness:
  "scrape_all_pages (example_env two_pages) home =
     Some ([home, str ''http://books/page-2.html''], Inr [attic_row, velvet_row])"
proof -
  let ?w = "example_env two_pages"
  let ?r1 = "\<lparr>status_code = 200, soup = example_page [attic] (Some (str ''page-2.html''))\<rparr>"
  let ?r2 = "\<lparr>status_code = 200, soup = example_page [velvet] None\<rparr>"
  have 1: "requests_get ?w 0 home = Some ?r1"
    by (simp add: example_get two_pages_def)
  have 2: "raise_for_status ?r1 = None"
    by (simp add: raise_for_status_def)
  have 3: "find_all (str ''article'') (Some (str ''product_pod'')) (soup ?r1) \<noteq> []"
    by (simp add: find_all_example_page)
  have 4: "list_all2 (\<lambda>b r. book_record ?w b = Inr r)
      (find_all (str ''article'') (Some (str ''product_pod'')) (soup ?r1)) [attic_row]"
    by (simp add: find_all_example_page book_record_attic)
  have 5: "next_a (soup ?r1) = Some (link None (Some (str ''page-2.html'')))"
    by (simp add: next_a_example_page)
  have 6: "attr_href (attrs (link None (Some (str ''page-2.html'')))) = Some (str ''page-2.html'')"
    by (simp add: link_def)
  have 7: "requests_get ?w 1 (urljoin ?w home (str ''page-2.html'')) = Some ?r2"
    by (simp add: example_get two_pages_def home_join)
  have 8: "raise_for_status ?r2 = None"
    by (simp add: raise_for_status_def)
  have 9: "list_all2 (\<lambda>b r. book_record ?w b = Inr r)
      (find_all (str ''article'') (Some (str ''product_pod'')) (soup ?r2)) [velvet_row]"
    by (simp add: find_all_example_page book_record_velvet)
  have 10: "next_a (soup ?r2) = None"
    by (simp add: next_a_example_page)
  have 11: "pd ?w"
    by (simp add: example_get)
  show ?thesis
    using two_pages_two_fetches [OF 1 2 3 4 5 6 7 8 9 10 11] by (simp add: example_get home_join)
qed

text \<open>
  Claim C4 as stated does not hold for a page 1 without item containers: the loop is
  left at line 73, before the next link is looked for, and page 2 is never
  requested.
\<close>

theorem two_pages_counterexample:
  "requests_get (example_env empty_then_more) 0 home =
     Some \<lparr>status_code = 200, soup = example_page [] (Some (str ''page-2.html''))\<rparr>
   \<and> next_a (example_page [] (Some (str ''page-2.html''))) = Some (link None (Some (str ''page-2.html'')))
   \<and> attr_href (attrs (link None (Some (str ''page-2.html'')))) = Some (str ''page-2.html'')
   \<and> requests_get (example_env empty_then_more) 1 (urljoin (example_env empty_then_more) home (str ''page-2.html'')) =
     Some \<lparr>status_code = 200, soup = example_page [velvet] None\<rparr>
   \<and> next_a (example_page [velvet] None) = None
   \<and> scrape_all_pages (example_env empty_then_more) home = Some ([home], Inr [])
   \<and> (\<nexists>rows. scrape_all_pages (example_env empty_then_more) home =
          Some ([home, str ''http://books/page-2.html''], Inr rows))"
proof -
  let ?w = "example_env empty_then_more"
  have "iteration ?w 0 home [] = Break []"
    by (simp add: iteration_def example_get empty_then_more_def raise_for_status_def find_all_example_page)
  then have "scrape_all_pages ?w home = Some ([home], Inr [])"
    by (simp add: scrape_all_pages_def while_loop.simps [of ?w "[]" home "[]"] example_get)
  then show ?thesis
    by (simp add: example_get empty_then_more_def home_join next_a_example_page link_def)
qed

text \<open>
  Claim C5. When the first page fetched has no item container, the run makes that one
  request and returns an empty data frame, without an error.
\<close>

theorem empty_first_page:
  assumes "requests_get w 0 base_url = Some response"
    and "raise_for_status response = None"
    and "find_all (str ''article'') (Some (str ''product_pod'')) (soup response) = []"
    and "pd w"
  shows "scrape_all_pages w base_url = Some ([base_url], Inr [])"
proof -
  have "iteration w (length ([] :: pystr list)) base_url [] = Break []"
    using assms(1-3) by (simp add: iteration_def)
  then have "scrape_all_pages w base_url = Some ([] @ [base_url], if pd w then Inr [] else Inl AttributeError)"
    by (intro scrape_all_pages_break [where k = 0]) simp_all
  then show ?thesis
    using assms(4) by simp
qed

theorem empty_first_page_witness:
  "scrape_all_pages (example_env [(home, 200, example_page [] None)]) home = Some ([home], Inr [])"
proof -
  let ?w = "example_env [(home, 200, example_page [] None)]"
  let ?r = "\<lparr>status_code = 200, soup = example_page [] None\<rparr>"
  have 1: "requests_get ?w 0 home = Some ?r"
    by (simp add: example_get)
  have 2: "raise_for_status ?r = None"
    by (simp add: raise_for_status_def)
  have 3: "find_all (str ''article'') (Some (str ''product_pod'')) (soup ?r) = []"
    by (simp add: find_all_example_page)
  have 4: "pd ?w"
    by (simp add: example_get)
  show ?thesis
    using empty_first_page [OF 1 2 3 4] .
qed



text \<open>
  Claim C7. When the text of the price element of a container is the pound sign
  followed by \<^verbatim>\<open>51.77\<close>, with any white space before and after, the price extracted
  is the number that \<^verbatim>\<open>float\<close> gives for the string \<^verbatim>\<open>51.77\<close>, which is the
  floating-point number 51.77; it is the price of the record when the title can be
  read.
\<close>

theorem price_51_77:
  assumes "find (str ''p'') (Some (str ''price_color'')) book = Some p"
    and "get_text p = before @ 163 # str ''51.77'' @ after"
    and "\<forall>c \<in> set before. isspace c"
    and "\<forall>c \<in> set after. isspace c"
    and "py_float w (str ''51.77'') = Some x"
  shows "price_of w book = Inr x
    \<and> (\<forall>t. title_of book = Inr t
          \<longrightarrow> book_record w book = Inr \<lparr>title = t, price = x, rating = rating_of book\<rparr>)"
proof -
  have "strip (replace 163 [] (strip (get_text p))) = str ''51.77''"
    using assms(2-4) by (simp add: strip_price)
  then have "price_of w book = Inr x"
    using assms(1,5) by (simp add: price_of_def)
  then show ?thesis
    by (simp add: book_record_def)
qed

theorem price_51_77_witness:
  "price_of (example_env []) (example_book (None, str ''  '' @ 163 # str ''51.77'' @ [10], ''Three'')) = Inr 51.77"
proof -
  let ?b = "example_book (None, str ''  '' @ 163 # str ''51.77'' @ [10], ''Three'')"
  let ?p = "elem ''p'' [''price_color''] [StringNode (str ''  '' @ 163 # str ''51.77'' @ [10])]"
  have 1: "find (str ''p'') (Some (str ''price_color'')) ?b = Some ?p"
    by (simp add: example_book_def elem_def link_def find_def find_all_def matches_def str_def)
  have 2: "get_text ?p = str ''  '' @ 163 # str ''51.77'' @ [10]"
    by (simp add: elem_def)
  have 3: "\<forall>c \<in> set (str ''  ''). isspace c"
    by (simp add: str_def isspace_def)
  have 4: "\<forall>c \<in> set [10]. isspace c"
    by (simp add: isspace_def)
  have 5: "py_float (example_env []) (str ''51.77'') = Some 51.77"
    by (simp add: example_get example_float_def)
  show ?thesis
    using price_51_77 [OF 1 2 3 4 5] by simp
qed

text \<open>
  Claim C8. When a page that the run receives has an item container with a malformed
  price, the run ends with an exception (\<^verbatim>\<open>AttributeError\<close> or \<^verbatim>\<open>ValueError\<close>) right
  after the request for that page: nothing is returned and no further page is
  requested. The containers after the malformed one play no part: the loop over the
  containers gives what it gives on the containers up to the malformed one.
\<close>

theorem malformed_price_aborts:
  assumes "state_after w base_url k = Some (fetched, url, results)"
    and "requests_get w (length fetched) url = Some response"
    and "raise_for_status response = None"
    and "bad \<in> set (find_all (str ''article'') (Some (str ''product_pod'')) (soup response))"
    and "price_malformed w bad"
  shows "(\<exists>e. (e = AttributeError \<or> e = ValueError)
            \<and> scrape_all_pages w base_url = Some (fetched @ [url], Inl e))
    \<and> (\<forall>pre post. find_all (str ''article'') (Some (str ''product_pod'')) (soup response) = pre @ bad # post
          \<longrightarrow> for_books w (pre @ bad # post) results = for_books w (pre @ [bad]) results)"
proof -
  obtain e where e: "book_record w bad = Inl e"
    using assms(5) price_malformed_fails by blast
  then obtain e' where e': "for_books w (find_all (str ''article'') (Some (str ''product_pod'')) (soup response)) results = Inl e'"
    using assms(4) for_books_member_fails by blast
  have ne: "find_all (str ''article'') (Some (str ''product_pod'')) (soup response) \<noteq> []"
    using assms(4) by auto
  have "iteration w (length fetched) url results = Raise e'"
    using assms(2,3) e' ne by (simp add: iteration_def)
  then have "scrape_all_pages w base_url = Some (fetched @ [url], Inl e')"
    by (rule scrape_all_pages_raise [OF assms(1)])
  moreover have "e' = AttributeError \<or> e' = ValueError"
    using e' by (rule for_books_error)
  ultimately show ?thesis
    using for_books_first_failure [OF e] by blast
qed

theorem malformed_price_aborts_witness:
  "(\<exists>e. scrape_all_pages (example_env bad_price) home = Some ([home, str ''http://books/page-2.html''], Inl e))
   \<and> for_books (example_env bad_price) [example_book velvet, example_book free_book, example_book attic] [attic_row] =
       for_books (example_env bad_price) [example_book velvet, example_book free_book] [attic_row]"
proof -
  let ?w = "example_env bad_price"
  let ?p2 = "str ''http://books/page-2.html''"
  let ?r2 = "\<lparr>status_code = 200, soup = example_page [velvet, free_book, attic] None\<rparr>"
  have 1: "state_after ?w home (Suc 0) = Some ([home], ?p2, [attic_row])"
    using first_page_continue [of bad_price 200 "str ''page-2.html''"]
    by (simp add: bad_price_def home_join)
  have 2: "requests_get ?w (length [home]) ?p2 = Some ?r2"
    by (simp add: example_get bad_price_def home_join)
  have 3: "raise_for_status ?r2 = None"
    by (simp add: raise_for_status_def)
  have f: "find_all (str ''article'') (Some (str ''product_pod'')) (soup ?r2) =
      [example_book velvet] @ example_book free_book # [example_book attic]"
    by (simp add: find_all_example_page)
  then have 4: "example_book free_book \<in> set (find_all (str ''article'') (Some (str ''product_pod'')) (soup ?r2))"
    by simp
  have 5: "price_malformed ?w (example_book free_book)"
    by (simp add: price_malformed_def free_book_def example_defs)
  note m = malformed_price_aborts [OF 1 2 3 4 5]
  from m have a: "\<exists>e. scrape_all_pages ?w home = Some ([home, ?p2], Inl e)"
    by auto
  from m f have "for_books ?w ([example_book velvet] @ example_book free_book # [example_book attic]) [attic_row] =
      for_books ?w ([example_book velvet] @ [example_book free_book]) [attic_row]"
    by blast
  with a show ?thesis
    by simp
qed

text \<open>
  Claim C9, amended. When a request of the run raises (a connection error, a
  time-out), or is answered with a status code from 400 to 599, the run ends with
  that exception: the request is not repeated, no further page is requested and
  nothing is returned.
\<close>

theorem failed_fetch_aborts:
  assumes "state_after w base_url k = Some (fetched, url, results)"
  shows "(requests_get w (length fetched) url = None
            \<longrightarrow> scrape_all_pages w base_url = Some (fetched @ [url], Inl RequestException))
    \<and> (\<forall>response. requests_get w (length fetched) url = Some response
            \<and> 400 \<le> status_code response \<and> status_code response < 600
          \<longrightarrow> scrape_all_pages w base_url = Some (fetched @ [url], Inl (HTTPError (status_code response))))"
proof (intro conjI impI allI)
  assume "requests_get w (length fetched) url = None"
  then have "iteration w (length fetched) url results = Raise RequestException"
    by (simp add: iteration_def)
  then show "scrape_all_pages w base_url = Some (fetched @ [url], Inl RequestException)"
    by (rule scrape_all_pages_raise [OF assms])
next
  fix response
  assume "requests_get w (length fetched) url = Some response
            \<and> 400 \<le> status_code response \<and> status_code response < 600"
  then have "iteration w (length fetched) url results = Raise (HTTPError (status_code response))"
    by (simp add: iteration_def raise_for_status_def)
  then show "scrape_all_pages w base_url = Some (fetched @ [url], Inl (HTTPError (status_code response)))"
    by (rule scrape_all_pages_raise [OF assms])
qed

theorem failed_fetch_aborts_witness:
  "scrape_all_pages (example_env not_found) home =
     Some ([home, str ''http://books/page-2.html''], Inl (HTTPError 404))
   \<and> scrape_all_pages (example_env unreachable) home =
     Some ([home, str ''http://books/page-2.html''], Inl RequestException)"
proof -
  let ?p2 = "str ''http://books/page-2.html''"
  have 1: "state_after (example_env not_found) home (Suc 0) = Some ([home], ?p2, [attic_row])"
    using first_page_continue [of not_found 200 "str ''page-2.html''"]
    by (simp add: not_found_def home_join)
  have 2: "requests_get (example_env not_found) (length [home]) ?p2 =
      Some \<lparr>status_code = 404, soup = example_page [] None\<rparr>
      \<and> 400 \<le> status_code \<lparr>status_code = 404, soup = example_page [] None\<rparr>
      \<and> status_code \<lparr>status_code = 404, soup = example_page [] None\<rparr> < 600"
    by (simp add: example_get not_found_def home_join)
  have 3: "state_after (example_env unreachable) home (Suc 0) = Some ([home], ?p2, [attic_row])"
    using first_page_continue [of unreachable 200 "str ''page-2.html''"]
    by (simp add: unreachable_def home_join)
  have 4: "requests_get (example_env unreachable) (length [home]) ?p2 = None"
    by (simp add: example_get unreachable_def home_join)
  show ?thesis
    using failed_fetch_aborts [OF 1] 2 failed_fetch_aborts [OF 3] 4 by auto
qed

text \<open>
  Claim C9 as stated does not hold for every status code outside 200 to 299:
  \<^verbatim>\<open>raise_for_status\<close> returns for a code below 400, so a page answered with 300 is
  scraped like any other, its next link is followed and the records are returned.
\<close>

theorem failed_fetch_counterexample:
  "requests_get (example_env multiple_choices) 0 home =
     Some \<lparr>status_code = 300, soup = example_page [attic] (Some (str ''page-2.html''))\<rparr>
   \<and> scrape_all_pages (example_env multiple_choices) home =
     Some ([home, str ''http://books/page-2.html''], Inr [attic_row, velvet_row])
   \<and> (\<nexists>fetched e. scrape_all_pages (example_env multiple_choices) home = Some (fetched, Inl e))"
proof -
  let ?w = "example_env multiple_choices"
  let ?p2 = "str ''http://books/page-2.html''"
  have 1: "state_after ?w home (Suc 0) = Some ([home], ?p2, [attic_row])"
    using first_page_continue [of multiple_choices 300 "str ''page-2.html''"]
    by (simp add: multiple_choices_def home_join)
  have "iteration ?w (length [home]) ?p2 [attic_row] = Break ([attic_row] @ [velvet_row])"
    by (rule iteration_last_page [where response = "\<lparr>status_code = 200, soup = example_page [velvet] None\<rparr>"])
      (simp_all add: example_get multiple_choices_def home_join raise_for_status_def
        find_all_example_page book_record_velvet next_a_example_page)
  then have "scrape_all_pages ?w home = Some ([home] @ [?p2],
      if pd ?w then Inr ([attic_row] @ [velvet_row]) else Inl AttributeError)"
    by (rule scrape_all_pages_break [OF 1])
  then show ?thesis
    by (simp add: example_get multiple_choices_def)
qed

text \<open>
  Claim C10. When the link in the heading of a container has no title attribute,
  reading the title does not fail: the title is the empty string, and the record is
  produced with it when the price can be read. A missing price element, in
  contrast, makes the extraction fail with \<^verbatim>\<open>AttributeError\<close>.
\<close>

theorem missing_title_attribute:
  assumes "find (str ''h3'') None book = Some h3"
    and "find (str ''a'') None h3 = Some a"
    and "attr_title (attrs a) = None"
  shows "title_of book = Inr []
    \<and> (\<forall>x. price_of w book = Inr x
          \<longrightarrow> book_record w book = Inr \<lparr>title = [], price = x, rating = rating_of book\<rparr>)
    \<and> (find (str ''p'') (Some (str ''price_color'')) book = None
          \<longrightarrow> book_record w book = Inl AttributeError)"
proof -
  have "title_of book = Inr []"
    using assms by (simp add: title_of_def strip_def)
  then show ?thesis
    by (simp add: book_record_def price_of_def)
qed

theorem missing_title_attribute_witness:
  "title_of (example_book (None, 163 # str ''51.77'', ''Three'')) = Inr []
   \<and> book_record (example_env []) (example_book (None, 163 # str ''51.77'', ''Three'')) =
       Inr \<lparr>title = [], price = 51.77, rating = Some 3\<rparr>"
proof -
  let ?b = "example_book (None, 163 # str ''51.77'', ''Three'')"
  let ?h3 = "elem ''h3'' [] [TagNode (link None (Some (str ''book.html'')))]"
  let ?a = "link None (Some (str ''book.html''))"
  have 1: "find (str ''h3'') None ?b = Some ?h3"
    by (simp add: example_book_def elem_def link_def find_def find_all_def matches_def str_def)
  have 2: "find (str ''a'') None ?h3 = Some ?a"
    by (simp add: elem_def link_def find_def find_all_def matches_def str_def)
  have 3: "attr_title (attrs ?a) = None"
    by (simp add: link_def)
  have 4: "price_of (example_env []) ?b = Inr 51.77"
    by (simp add: example_defs)
  have 5: "rating_of ?b = Some 3"
    by (simp add: example_defs)
  show ?thesis
    using missing_title_attribute [OF 1 2 3, of "example_env []"] 4 5 by simp
qed

end
